theory Spec2Isabelle
  imports Main
begin

section \<open>The ZVP notebook of the pyecsca CHES 2024 tutorial\<close>

text \<open>
  The repository is a set of notebooks that call the pyecsca library. The code that is in
  the repository is the code of the notebook cells; the library functions they call
  (\<^verbatim>\<open>mult.multiply\<close>, \<^verbatim>\<open>unroll_formula\<close>, \<^verbatim>\<open>compute_factor_set\<close>, \<^verbatim>\<open>zvp_points\<close>,
  \<^verbatim>\<open>affine_multiply\<close>, \<^verbatim>\<open>to_model\<close>, the formulas themselves) are taken as parameters of
  the cells that call them.
\<close>

subsection \<open>Symbolic formula execution cell\<close>

text \<open>
  \<^verbatim>\<open>
  getconfig().ec.mod_implementation = "symbolic"
  x, y, z = symbols("x y z")
  ...
  with local(DefaultContext()) as ctx:
      mult.init(params, point)
      res = mult.multiply(5)
  ...
  getconfig().ec.mod_implementation = "python"
  \<close>
  \<^verbatim>\<open>getconfig()\<close> is the process-wide configuration object of the library. The record below
  holds its \<^verbatim>\<open>ec.mod_implementation\<close> attribute; every other piece of global state (the other
  settings, the ambient current context that \<^verbatim>\<open>local\<close> installs) lives in the extension
  part of the record, on which the cell itself does nothing.
\<close>

record ec_config =
  mod_implementation :: string

text \<open>
  The statements between the two assignments (building the symbolic curve and point, and
  the \<^verbatim>\<open>with\<close> block around \<^verbatim>\<open>mult.init\<close> and \<^verbatim>\<open>mult.multiply(5)\<close>) are library calls:
  \<open>body\<close> takes the global state they run in and returns their outcome with the global
  state they leave behind. The outcome is \<open>Inr\<close> of what the cell keeps of them (the
  context \<^verbatim>\<open>ctx\<close> with the recorded intermediates, and \<^verbatim>\<open>res\<close>) when they all return, and
  \<open>Inl\<close> of the exception when one of them raises (a name that is not defined, an error
  of the library, an interrupt).

  The last assignment is a plain statement, not the \<^verbatim>\<open>finally\<close> part of a \<^verbatim>\<open>try\<close>: an
  exception ends the cell where it is raised, and the assignment is not reached.
\<close>

definition symbolic_cell ::
  "('z ec_config_scheme \<Rightarrow> ('e + 'out) \<times> 'z ec_config_scheme) \<Rightarrow>
   'z ec_config_scheme \<Rightarrow> ('e + 'out) \<times> 'z ec_config_scheme" where
  "symbolic_cell body g =
     (let g1 = g\<lparr>mod_implementation := ''symbolic''\<rparr> in
      case body g1 of
        (Inl e, g2) \<Rightarrow> (Inl e, g2)
      | (Inr out, g2) \<Rightarrow> (Inr out, g2\<lparr>mod_implementation := ''python''\<rparr>))"

subsection \<open>Distinguishing cell\<close>

text \<open>
  One entry of \<^verbatim>\<open>fctx.actions[0].action.op_results\<close>: the name of the intermediate and its
  value. The value is an element of the prime field, held as its residue; the source
  compares it with the integer \<^verbatim>\<open>0\<close>.
\<close>

record op_result =
  op_name :: string
  op_value :: int

text \<open>
  \<^verbatim>\<open>
  zero = False
  for opres in fctx.actions[0].action.op_results:
      zero |= opres.value == 0
      print(...)
  print("zero observed" if zero else "no zero observed")
  \<close>
\<close>

fun zero_scan :: "bool \<Rightarrow> op_result list \<Rightarrow> bool" where
  "zero_scan zero [] = zero"
| "zero_scan zero (opres # rest) = zero_scan (zero \<or> op_value opres = 0) rest"

definition zero_observed :: "op_result list \<Rightarrow> bool" where
  "zero_observed op_results = zero_scan False op_results"

definition verdict :: "op_result list \<Rightarrow> string" where
  "verdict op_results =
     (if zero_observed op_results then ''zero observed'' else ''no zero observed'')"

text \<open>
  The library calls of the loop body. \<open>to_model\<close> is \<^verbatim>\<open>Point.to_model(coords, curve,
  randomized=True)\<close> with the random scaling it draws made an argument;
  \<open>apply_formula\<close> is the call \<^verbatim>\<open>formula(prime, P, Q, **parameters)\<close> under a fresh
  \<^verbatim>\<open>DefaultContext\<close>, returning the op results the context recorded for it. A library
  call that raises ends the cell before any verdict is printed; the functions here stand
  for the calls that return.
\<close>

record ('f, 'p, 'j) library =
  affine_multiply :: "'p \<Rightarrow> int \<Rightarrow> 'p"
  to_model :: "int \<Rightarrow> 'p \<Rightarrow> 'j"
  apply_formula :: "'f \<Rightarrow> 'j \<Rightarrow> 'j \<Rightarrow> op_result list"

text \<open>
  \<^verbatim>\<open>
  multiple = secp256r1.curve.affine_multiply(point, 4)
  point_jacobian = point.to_model(coords, secp256r1.curve, randomized=True)
  multiple_jacobian = multiple.to_model(coords, secp256r1.curve, randomized=True)
  with local(DefaultContext()) as fctx:
      result = formula(secp256r1.curve.prime, point_jacobian, multiple_jacobian, ...)
  \<close>
  \<open>l1\<close> and \<open>l2\<close> are the two random scalings drawn by the two \<^verbatim>\<open>to_model\<close> calls.
\<close>

definition simulate ::
  "('f, 'p, 'j) library \<Rightarrow> 'f \<Rightarrow> 'p \<Rightarrow> int \<Rightarrow> int \<Rightarrow> op_result list" where
  "simulate lib formula point l1 l2 =
     (let multiple = affine_multiply lib point 4;
          point_jacobian = to_model lib l1 point;
          multiple_jacobian = to_model lib l2 multiple
      in apply_formula lib formula point_jacobian multiple_jacobian)"

text \<open>The line the cell prints for one (formula, point) pair.\<close>

definition distinguish_one ::
  "('f, 'p, 'j) library \<Rightarrow> 'f \<Rightarrow> 'p \<Rightarrow> int \<Rightarrow> int \<Rightarrow> string" where
  "distinguish_one lib formula point l1 l2 = verdict (simulate lib formula point l1 l2)"

text \<open>
  The two nested loops, \<^verbatim>\<open>for formula in (one_add, other_add): for point in pts:\<close>. The
  points are taken in the order the set is iterated; \<open>rnd\<close> is the sequence of random
  scalings, two of them used by each execution, \<open>i\<close> the number already used.
\<close>

fun distinguish_points ::
  "('f, 'p, 'j) library \<Rightarrow> (nat \<Rightarrow> int) \<Rightarrow> nat \<Rightarrow> 'f \<Rightarrow> 'p list \<Rightarrow> ('f \<times> 'p \<times> string) list" where
  "distinguish_points lib rnd i formula [] = []"
| "distinguish_points lib rnd i formula (point # pts) =
     (formula, point, distinguish_one lib formula point (rnd i) (rnd (i + 1)))
       # distinguish_points lib rnd (i + 2) formula pts"

fun distinguish ::
  "('f, 'p, 'j) library \<Rightarrow> (nat \<Rightarrow> int) \<Rightarrow> nat \<Rightarrow> 'f list \<Rightarrow> 'p list \<Rightarrow> ('f \<times> 'p \<times> string) list" where
  "distinguish lib rnd i [] pts = []"
| "distinguish lib rnd i (formula # formulas) pts =
     distinguish_points lib rnd i formula pts
       @ distinguish lib rnd (i + 2 * length pts) formulas pts"

section \<open>Properties\<close>

subsection \<open>The scan over the intermediates\<close>

lemma zero_scan_iff:
  "zero_scan zero op_results = (zero \<or> (\<exists>opres \<in> set op_results. op_value opres = 0))"
  by (induction op_results arbitrary: zero) auto

lemma zero_observed_iff:
  "zero_observed op_results = (\<exists>opres \<in> set op_results. op_value opres = 0)"
  by (simp add: zero_observed_def zero_scan_iff)

lemma verdict_iff: "(verdict op_results = ''zero observed'') = zero_observed op_results"
  by (simp add: verdict_def)

text \<open>
  C9. In the distinguishing step the verdict printed for a (formula, point) pair is
  "zero observed" if and only if at least one op result of that one formula execution
  has the value zero: the test ranges over every intermediate the execution recorded,
  whatever its name, and not only over the one the target polynomial came from.
\<close>

theorem distinguish_one_zero_iff_some_intermediate_zero:
  "(distinguish_one lib formula point l1 l2 = ''zero observed'') =
     (\<exists>opres \<in> set (simulate lib formula point l1 l2). op_value opres = 0)"
  by (simp add: distinguish_one_def verdict_iff zero_observed_iff)

theorem distinguish_one_zero_witness:
  "distinguish_one
     \<lparr>affine_multiply = (\<lambda>(P::int) k. k * P), to_model = (\<lambda>l P. (l * P, l)),
      apply_formula = (\<lambda>(f::string) (X1, Z1) (X2, Z2).
        [\<lparr>op_name = ''U1'', op_value = X1 * Z2\<rparr>,
         \<lparr>op_name = ''U2'', op_value = X2 * Z1\<rparr>,
         \<lparr>op_name = ''H'', op_value = X2 * Z1 - X1 * Z2\<rparr>,
         \<lparr>op_name = ''Z3'', op_value = Z1 * Z2\<rparr>])\<rparr>
     ''sub'' 0 3 5 = ''zero observed''"
  by (rule iffD2 [OF distinguish_one_zero_iff_some_intermediate_zero])
    (simp add: simulate_def)

subsection \<open>Global state around the symbolic execution\<close>

text \<open>
  C8 as stated: executing a formula symbolically leaves all state outside the trace
  unchanged. The cell assigns the global \<^verbatim>\<open>mod_implementation\<close> setting twice; started
  with the setting at \<^verbatim>\<open>"gmp"\<close>, and with library calls that return and touch no global
  state at all, it ends with the setting at \<^verbatim>\<open>"python"\<close>.
\<close>

theorem symbolic_cell_changes_config:
  "snd (symbolic_cell (\<lambda>g. (Inr ([] :: op_result list, 0 :: int) :: string + _, g))
          \<lparr>mod_implementation = ''gmp''\<rparr>)
     \<noteq> \<lparr>mod_implementation = ''gmp''\<rparr>"
  by (simp add: symbolic_cell_def)

text \<open>
  C8, amended. The symbolic execution of the notebook works through ambient global
  state. The cell sets the global \<^verbatim>\<open>mod_implementation\<close> setting to \<^verbatim>\<open>"symbolic"\<close>
  before the library calls run, and its outcome (the intermediates and the result, or
  the exception) is the one they produce from that state. When all of them return,
  the global state afterwards is the one they leave with the setting at \<^verbatim>\<open>"python"\<close>,
  whatever the setting was before the cell. When one of them raises, the last
  assignment is skipped and the global state stays exactly as the raising call left it:
  the setting is then still \<^verbatim>\<open>"symbolic"\<close> unless the library itself changed it.
\<close>

theorem symbolic_cell_global_state:
  "fst (symbolic_cell body g) = fst (body (g\<lparr>mod_implementation := ''symbolic''\<rparr>))
   \<and> (\<forall>out g2. body (g\<lparr>mod_implementation := ''symbolic''\<rparr>) = (Inr out, g2) \<longrightarrow>
         snd (symbolic_cell body g) = g2\<lparr>mod_implementation := ''python''\<rparr>)
   \<and> (\<forall>e g2. body (g\<lparr>mod_implementation := ''symbolic''\<rparr>) = (Inl e, g2) \<longrightarrow>
         snd (symbolic_cell body g) = g2)"
  by (simp add: symbolic_cell_def Let_def split: prod.split sum.split)

text \<open>
  Both outcomes from the setting \<^verbatim>\<open>"gmp"\<close>, with library calls that leave the global
  state alone: a cell that runs to its end leaves \<^verbatim>\<open>"python"\<close>, a cell stopped by an
  exception leaves \<^verbatim>\<open>"symbolic"\<close>.
\<close>

theorem symbolic_cell_global_state_witness:
  "snd (symbolic_cell (\<lambda>g. (Inr ([] :: op_result list, 5 :: int) :: string + _, g))
          \<lparr>mod_implementation = ''gmp''\<rparr>)
     = \<lparr>mod_implementation = ''python''\<rparr>
   \<and> snd (symbolic_cell (\<lambda>g. (Inl ''NameError'' :: _ + op_result list \<times> int, g))
          \<lparr>mod_implementation = ''gmp''\<rparr>)
     = \<lparr>mod_implementation = ''symbolic''\<rparr>"
  using
    symbolic_cell_global_state
      [of "\<lambda>g. (Inr ([] :: op_result list, 5 :: int) :: string + _, g)"
          "\<lparr>mod_implementation = ''gmp''\<rparr>"]
    symbolic_cell_global_state
      [of "\<lambda>g. (Inl ''NameError'' :: _ + op_result list \<times> int, g)"
          "\<lparr>mod_implementation = ''gmp''\<rparr>"]
  by simp

end
